theory Spec2Isabelle
  imports
    Complex_Main
    "HOL-Library.Sublist"
    "HOL-Library.Char_ord"
    "HOL-Library.List_Lexorder"
begin

section \<open>The store\<close>

text \<open>
  DegreeDash keeps its data in one SQLite file. Every model method issues SQL statements
  through a promise wrapper (\<^verbatim>\<open>get\<close>: first row or undefined, \<^verbatim>\<open>all\<close>: all rows,
  \<^verbatim>\<open>run\<close>: \<^verbatim>\<open>{id: lastID, changes}\<close>). A table is a list of rows in rowid order, the
  store a record of the tables, and every method takes the store and returns its result
  together with the store it leaves behind. A rejected promise is the \<open>Inl\<close> of a sum.
  \<^verbatim>\<open>CURRENT_TIMESTAMP\<close> is the argument \<open>now\<close> of the call that issues the statement.
  The modules are taken to share one connection, hence one \<^verbatim>\<open>lastID\<close>.
\<close>

datatype error =
  Error string        \<comment> \<open>\<^verbatim>\<open>throw new Error(message)\<close>\<close>
| TypeError string    \<comment> \<open>reading a property of undefined\<close>
| SqliteError string  \<comment> \<open>the driver's error for a statement the engine refuses\<close>

record course =
  c_id :: nat
  course_code :: string
  course_name :: string
  department :: string
  description :: "string option"
  c_created_at :: nat

record review =
  r_id :: nat
  r_user_id :: nat
  r_course_id :: nat
  r_professor_id :: "nat option"
  rating :: int
  difficulty :: int
  comment :: "string option"
  would_recommend :: "bool option"
  semester_taken :: "string option"
  year_taken :: "int option"
  r_created_at :: nat

record professor =
  p_id :: nat
  p_name :: string
  p_department :: string

record user =
  u_id :: nat
  microsoft_id :: string
  email :: string
  u_name :: string
  avatar_url :: "string option"
  user_type :: string
  graduation_year :: "int option"
  major :: "string option"
  enrollment_year :: "int option"
  last_login :: nat
  u_created_at :: nat
  u_updated_at :: "nat option"

record alumni =
  a_id :: nat
  a_user_id :: nat
  current_employer :: "string option"
  job_title :: "string option"
  industry :: "string option"
  location :: "string option"
  linkedin_url :: "string option"
  mentorship_available :: bool
  a_updated_at :: "nat option"

record db =
  courses :: "course list"
  reviews :: "review list"
  professors :: "professor list"
  users :: "user list"
  alumni_network :: "alumni list"
  foreign_keys :: bool   \<comment> \<open>\<^verbatim>\<open>PRAGMA foreign_keys\<close> of the connection\<close>
  lastID :: nat          \<comment> \<open>rowid of the connection's last successful insert\<close>

record run_result =
  run_id :: nat
  changes :: nat

text \<open>
  Modelled from the spec: the table declarations are not among the sources. Every entity
  has an auto-assigned integer primary key; SQLite assigns the largest rowid in the table
  plus one.
\<close>

definition next_rowid :: "nat list \<Rightarrow> nat" where
  "next_rowid ids = Suc (fold max ids 0)"

text \<open>JavaScript truthiness of a value that is a string, null or undefined.\<close>

fun truthy :: "string option \<Rightarrow> bool" where
  "truthy None = False"
| "truthy (Some s) = (s \<noteq> [])"

section \<open>CourseModel.js\<close>

definition Course_findByCode :: "string \<Rightarrow> db \<Rightarrow> course option" where
  "Course_findByCode courseCode s = find (\<lambda>c. course_code c = courseCode) (courses s)"

definition Course_findById :: "nat \<Rightarrow> db \<Rightarrow> course option" where
  "Course_findById i s = find (\<lambda>c. c_id c = i) (courses s)"

text \<open>
  Modelled from the spec: the declaration of the table \<^verbatim>\<open>courses\<close> is not among the
  sources. The spec gives it a unique \<^verbatim>\<open>course_code\<close> and a \<^verbatim>\<open>created_at\<close> set at
  creation, so the engine refuses
  \<^verbatim>\<open>INSERT INTO courses (course_code, course_name, department, description)\<close> for a
  code already present.
\<close>

definition insert_course ::
  "nat \<Rightarrow> string \<Rightarrow> string \<Rightarrow> string \<Rightarrow> string option \<Rightarrow> db \<Rightarrow> error + run_result \<times> db" where
  "insert_course now code name dept descr s =
     (if list_ex (\<lambda>c. course_code c = code) (courses s)
      then Inl (SqliteError ''SQLITE_CONSTRAINT: UNIQUE constraint failed: courses.course_code'')
      else
        let i = next_rowid (map c_id (courses s));
            row = \<lparr>c_id = i, course_code = code, course_name = name, department = dept,
                   description = descr, c_created_at = now\<rparr>
        in Inr (\<lparr>run_id = i, changes = 1\<rparr>, s\<lparr>courses := courses s @ [row], lastID := i\<rparr>))"

record course_data =
  cd_course_code :: "string option"
  cd_course_name :: "string option"
  cd_department :: "string option"
  cd_description :: "string option"

definition missing_required :: error where
  "missing_required =
     Error ''Missing required fields: course_code, course_name, and department are required''"

definition Course_create :: "nat \<Rightarrow> course_data \<Rightarrow> db \<Rightarrow> (error + course option) \<times> db" where
  "Course_create now courseData s =
     (if \<not> truthy (cd_course_code courseData) \<or> \<not> truthy (cd_course_name courseData)
         \<or> \<not> truthy (cd_department courseData)
      then (Inl missing_required, s)
      else
        (case (cd_course_code courseData, cd_course_name courseData, cd_department courseData) of
          (Some code, Some name, Some dept) \<Rightarrow>
            (case insert_course now code name dept
                    (if truthy (cd_description courseData) then cd_description courseData else None) s of
              Inl e \<Rightarrow> (Inl e, s)
            | Inr (result, s') \<Rightarrow> (Inr (Course_findById (run_id result) s'), s'))
        | _ \<Rightarrow> (Inl missing_required, s)))"

text \<open>
  The check for reviews is the method's own, made before the \<^verbatim>\<open>DELETE\<close>. The store
  holds no course-professor assignments, so nothing else refuses the \<^verbatim>\<open>DELETE\<close>.
\<close>

definition Course_delete :: "nat \<Rightarrow> db \<Rightarrow> (error + bool) \<times> db" where
  "Course_delete i s =
     (let count = length (filter (\<lambda>r. r_course_id r = i) (reviews s)) in
      if count > 0 then (Inl (Error ''Cannot delete course with existing reviews''), s)
      else
        let n = length (filter (\<lambda>c. c_id c = i) (courses s)) in
        (Inr (n > 0), s\<lparr>courses := filter (\<lambda>c. c_id c \<noteq> i) (courses s)\<rparr>))"

subsection \<open>search\<close>









subsection \<open>getCourseWithReviews\<close>

text \<open>
  JavaScript numbers are IEEE doubles. Ratings are taken as integers (the scale is 1 to
  5, which nothing enforces), so their sum is exact; the
  quotient \<^verbatim>\<open>sum / reviews.length\<close> is the double nearest to the exact quotient (53 bits
  of significand, ties to even), written here as the rational number that double is.
  The quotients of this program are far from the overflow and subnormal ranges, which
  are left out.
\<close>

fun bitlen :: "nat \<Rightarrow> nat" where
  "bitlen n = (if n = 0 then 0 else Suc (bitlen (n div 2)))"

definition pow2 :: "int \<Rightarrow> rat" where
  "pow2 e = (if 0 \<le> e then 2 ^ nat e else 1 / 2 ^ nat (- e))"

definition ilog2 :: "rat \<Rightarrow> int" where
  "ilog2 q =
     (let (a, b) = quotient_of q;
          k = int (bitlen (nat a)) - int (bitlen (nat b))
      in if pow2 k \<le> q then k else k - 1)"

definition round_half_even :: "rat \<Rightarrow> int" where
  "round_half_even q =
     (let f = \<lfloor>q\<rfloor>; d = q - of_int f in
      if d < 1 / 2 then f else if 1 / 2 < d then f + 1 else if even f then f else f + 1)"

definition fl64 :: "rat \<Rightarrow> rat" where
  "fl64 q =
     (if q = 0 then 0
      else
        let e = ilog2 \<bar>q\<bar> - 52;
            m = round_half_even (\<bar>q\<bar> / pow2 e)
        in sgn q * of_int m * pow2 e)"

text \<open>
  \<^verbatim>\<open>parseFloat(x.toFixed(1))\<close>: \<^verbatim>\<open>toFixed\<close> takes the integer \<open>n\<close> with \<open>n / 10\<close> nearest
  to the magnitude of \<open>x\<close>, the larger one of two, and keeps the sign. The result is
  written as the decimal \<open>n / 10\<close> that \<^verbatim>\<open>parseFloat\<close> reads.
\<close>

definition toFixed1 :: "rat \<Rightarrow> rat" where
  "toFixed1 x = sgn x * of_int \<lfloor>\<bar>x\<bar> * 10 + 1 / 2\<rfloor> / 10"

record course_with_reviews =
  cwr_course :: course
  cwr_reviews :: "(review \<times> string option) list"
  review_count :: nat
  average_rating :: "rat option"

text \<open>
  \<^verbatim>\<open>LEFT JOIN professors p ON r.professor_id = p.id\<close>, the column \<^verbatim>\<open>p.name\<close>. The
  reviews come newest first (\<^verbatim>\<open>ORDER BY r.created_at DESC\<close>), those of one timestamp in
  rowid order.
\<close>

definition professor_name :: "db \<Rightarrow> review \<Rightarrow> string option" where
  "professor_name s r =
     (case r_professor_id r of
        None \<Rightarrow> None
      | Some pid \<Rightarrow> map_option p_name (find (\<lambda>p. p_id p = pid) (professors s)))"

definition Course_getCourseWithReviews :: "nat \<Rightarrow> db \<Rightarrow> course_with_reviews option" where
  "Course_getCourseWithReviews courseId s =
     (case Course_findById courseId s of
        None \<Rightarrow> None
      | Some course \<Rightarrow>
          let rs = sort_key (\<lambda>r. - int (r_created_at r))
                     (filter (\<lambda>r. r_course_id r = courseId) (reviews s));
              rows = map (\<lambda>r. (r, professor_name s r)) rs;
              avgRating =
                (if length rows > 0
                 then Some (fl64 (of_int (foldl (\<lambda>acc row. acc + rating (fst row)) 0 rows)
                                   / of_nat (length rows)))
                 else None)
          in Some \<lparr>cwr_course = course, cwr_reviews = rows, review_count = length rows,
                   average_rating =
                     (case avgRating of
                        None \<Rightarrow> None
                      | Some a \<Rightarrow> if a \<noteq> 0 then Some (toFixed1 a) else None)\<rparr>)"

section \<open>User.js\<close>

text \<open>
  Modelled from the spec: columns an \<^verbatim>\<open>INSERT\<close> does not name take the defaults of the
  table declaration, which is not among the sources. \<^verbatim>\<open>created_at\<close> is set at creation;
  \<^verbatim>\<open>updated_at\<close> starts as \<^verbatim>\<open>NULL\<close>.
\<close>

definition User_findByMicrosoftId :: "string \<Rightarrow> db \<Rightarrow> user option" where
  "User_findByMicrosoftId microsoftId s = find (\<lambda>u. microsoft_id u = microsoftId) (users s)"

definition User_findById :: "nat \<Rightarrow> db \<Rightarrow> user option" where
  "User_findById i s = find (\<lambda>u. u_id u = i) (users s)"

record user_data =
  ud_microsoft_id :: string
  ud_email :: string
  ud_name :: string
  ud_avatar_url :: "string option"
  ud_user_type :: "string option"
  ud_graduation_year :: "int option"
  ud_major :: "string option"
  ud_enrollment_year :: "int option"

text \<open>
  Modelled from the spec: the declaration of the table \<^verbatim>\<open>users\<close> is not among the
  sources; the spec gives it a unique \<^verbatim>\<open>microsoft_id\<close>, so the engine refuses
  \<^verbatim>\<open>INSERT INTO users (...)\<close> for an external id already present.
\<close>

definition insert_user :: "nat \<Rightarrow> user_data \<Rightarrow> string \<Rightarrow> db \<Rightarrow> error + run_result \<times> db" where
  "insert_user now userData userType s =
     (if list_ex (\<lambda>u. microsoft_id u = ud_microsoft_id userData) (users s)
      then Inl (SqliteError ''SQLITE_CONSTRAINT: UNIQUE constraint failed: users.microsoft_id'')
      else
        let i = next_rowid (map u_id (users s));
            row = \<lparr>u_id = i, microsoft_id = ud_microsoft_id userData, email = ud_email userData,
                   u_name = ud_name userData, avatar_url = ud_avatar_url userData,
                   user_type = userType, graduation_year = ud_graduation_year userData,
                   major = ud_major userData, enrollment_year = ud_enrollment_year userData,
                   last_login = now, u_created_at = now, u_updated_at = None\<rparr>
        in Inr (\<lparr>run_id = i, changes = 1\<rparr>, s\<lparr>users := users s @ [row], lastID := i\<rparr>))"

definition User_create :: "nat \<Rightarrow> user_data \<Rightarrow> db \<Rightarrow> (error + user option) \<times> db" where
  "User_create now userData s =
     (let user_type = (case ud_user_type userData of None \<Rightarrow> ''current'' | Some t \<Rightarrow> t) in
      case insert_user now userData user_type s of
        Inl e \<Rightarrow> (Inl e, s)
      | Inr (result, s') \<Rightarrow> (Inr (User_findById (run_id result) s'), s'))"

definition User_updateLastLogin :: "nat \<Rightarrow> nat \<Rightarrow> db \<Rightarrow> db" where
  "User_updateLastLogin now i s =
     s\<lparr>users := map (\<lambda>u. if u_id u = i then u\<lparr>last_login := now\<rparr> else u) (users s)\<rparr>"

text \<open>
  The profile the identity provider hands over: \<^verbatim>\<open>id\<close>, \<^verbatim>\<open>emails[i].value\<close>,
  \<^verbatim>\<open>displayName\<close>, \<^verbatim>\<open>photos[i].value\<close>. Reading \<^verbatim>\<open>emails[0].value\<close> of a profile
  without an email throws; \<^verbatim>\<open>photos?.[0]?.value\<close> is then undefined.
\<close>

record profile =
  pr_id :: string
  emails :: "string list"
  displayName :: string
  photos :: "string list"

definition User_findOrCreateFromMicrosoft ::
  "nat \<Rightarrow> profile \<Rightarrow> string option \<Rightarrow> db \<Rightarrow> (error + user option) \<times> db" where
  "User_findOrCreateFromMicrosoft now prof userType s =
     (let userType = (case userType of None \<Rightarrow> ''current'' | Some t \<Rightarrow> t) in
      case User_findByMicrosoftId (pr_id prof) s of
        None \<Rightarrow>
          (case emails prof of
             [] \<Rightarrow> (Inl (TypeError ''Cannot read properties of undefined (reading 'value')''), s)
           | e # _ \<Rightarrow>
               User_create now
                 \<lparr>ud_microsoft_id = pr_id prof, ud_email = e, ud_name = displayName prof,
                  ud_avatar_url = (case photos prof of [] \<Rightarrow> None | ph # _ \<Rightarrow> Some ph),
                  ud_user_type = Some userType, ud_graduation_year = None, ud_major = None,
                  ud_enrollment_year = None\<rparr> s)
      | Some user \<Rightarrow> (Inr (Some user), User_updateLastLogin now (u_id user) s))"

definition User_updateUserType ::
  "nat \<Rightarrow> nat \<Rightarrow> string \<Rightarrow> int option \<Rightarrow> db \<Rightarrow> user option \<times> db" where
  "User_updateUserType now userId userType graduationYear s =
     (let s' = s\<lparr>users :=
                   map (\<lambda>u. if u_id u = userId
                             then u\<lparr>user_type := userType, graduation_year := graduationYear,
                                    u_updated_at := Some now\<rparr>
                             else u) (users s)\<rparr>
      in (User_findById userId s', s'))"

record alumni_data =
  ad_graduation_year :: "int option"
  ad_current_employer :: "string option"
  ad_job_title :: "string option"
  ad_industry :: "string option"
  ad_location :: "string option"
  ad_linkedin_url :: "string option"
  ad_mentorship_available :: "bool option"

definition alumni_of :: "nat \<Rightarrow> db \<Rightarrow> alumni option" where
  \<comment> \<open>\<^verbatim>\<open>SELECT * FROM alumni_network WHERE user_id = ?\<close>\<close>
  "alumni_of userId s = find (\<lambda>a. a_user_id a = userId) (alumni_network s)"

text \<open>
  Modelled from the spec: the declaration of the table \<^verbatim>\<open>alumni_network\<close> is not among
  the sources; the profile extends a user, and with referential integrity enforced the
  engine refuses the insert of a row whose \<^verbatim>\<open>user_id\<close> names no user. There is no
  uniqueness constraint on \<^verbatim>\<open>user_id\<close>: the method checks for the row itself.
\<close>

definition insert_alumni :: "nat \<Rightarrow> alumni_data \<Rightarrow> bool \<Rightarrow> db \<Rightarrow> error + run_result \<times> db" where
  "insert_alumni userId alumniData mentorship s =
     (if foreign_keys s \<and> \<not> list_ex (\<lambda>u. u_id u = userId) (users s)
      then Inl (SqliteError ''SQLITE_CONSTRAINT: FOREIGN KEY constraint failed'')
      else
        let i = next_rowid (map a_id (alumni_network s));
            row = \<lparr>a_id = i, a_user_id = userId,
                   current_employer = ad_current_employer alumniData,
                   job_title = ad_job_title alumniData, industry = ad_industry alumniData,
                   location = ad_location alumniData, linkedin_url = ad_linkedin_url alumniData,
                   mentorship_available = mentorship, a_updated_at = None\<rparr>
        in Inr (\<lparr>run_id = i, changes = 1\<rparr>,
                s\<lparr>alumni_network := alumni_network s @ [row], lastID := i\<rparr>))"

definition update_alumni :: "nat \<Rightarrow> nat \<Rightarrow> alumni_data \<Rightarrow> bool \<Rightarrow> db \<Rightarrow> db" where
  "update_alumni now userId alumniData mentorship s =
     s\<lparr>alumni_network :=
         map (\<lambda>a. if a_user_id a = userId
                   then a\<lparr>current_employer := ad_current_employer alumniData,
                          job_title := ad_job_title alumniData,
                          industry := ad_industry alumniData,
                          location := ad_location alumniData,
                          linkedin_url := ad_linkedin_url alumniData,
                          mentorship_available := mentorship,
                          a_updated_at := Some now\<rparr>
                   else a) (alumni_network s)\<rparr>"

definition User_updateAlumniNetwork ::
  "nat \<Rightarrow> nat \<Rightarrow> alumni_data \<Rightarrow> db \<Rightarrow> (error + alumni option) \<times> db" where
  "User_updateAlumniNetwork now userId alumniData s =
     (let s1 = snd (User_updateUserType now userId ''alumni'' (ad_graduation_year alumniData) s);
          mentorship = (case ad_mentorship_available alumniData of None \<Rightarrow> False | Some b \<Rightarrow> b)
      in case alumni_of userId s1 of
           Some existing \<Rightarrow>
             (let s2 = update_alumni now userId alumniData mentorship s1
              in (Inr (alumni_of userId s2), s2))
         | None \<Rightarrow>
             (case insert_alumni userId alumniData mentorship s1 of
                Inl e \<Rightarrow> (Inl e, s1)
              | Inr (result, s2) \<Rightarrow> (Inr (alumni_of userId s2), s2)))"

text \<open>
  \<^verbatim>\<open>SELECT u.*, a.* FROM users u LEFT JOIN alumni_network a ON u.id = a.user_id
  WHERE u.id = ? AND u.user_type = 'alumni'\<close>, first row. The driver hands a row over
  as one object keyed by the bare column names, filled in column order, so of two
  columns with one name the later one stays. Both tables have \<^verbatim>\<open>id\<close> and
  \<^verbatim>\<open>updated_at\<close>: under these two keys the object holds the profile's values, not the
  user's. Every profile column is \<^verbatim>\<open>NULL\<close> (here \<open>None\<close>) when no profile row joins.
\<close>

record alumni_network_object =
  an_id :: "nat option"               \<comment> \<open>\<^verbatim>\<open>a.id\<close>, over \<^verbatim>\<open>u.id\<close>\<close>
  an_microsoft_id :: string
  an_email :: string
  an_name :: string
  an_avatar_url :: "string option"
  an_user_type :: string
  an_graduation_year :: "int option"
  an_major :: "string option"
  an_enrollment_year :: "int option"
  an_last_login :: nat
  an_created_at :: nat
  an_updated_at :: "nat option"       \<comment> \<open>\<^verbatim>\<open>a.updated_at\<close>, over \<^verbatim>\<open>u.updated_at\<close>\<close>
  an_user_id :: "nat option"
  an_current_employer :: "string option"
  an_job_title :: "string option"
  an_industry :: "string option"
  an_location :: "string option"
  an_linkedin_url :: "string option"
  an_mentorship_available :: "bool option"

definition row_object :: "user \<Rightarrow> alumni option \<Rightarrow> alumni_network_object" where
  "row_object u a =
     \<lparr>an_id = map_option a_id a,
      an_microsoft_id = microsoft_id u, an_email = email u, an_name = u_name u,
      an_avatar_url = avatar_url u, an_user_type = user_type u,
      an_graduation_year = graduation_year u, an_major = major u,
      an_enrollment_year = enrollment_year u, an_last_login = last_login u,
      an_created_at = u_created_at u,
      an_updated_at = (case a of None \<Rightarrow> None | Some x \<Rightarrow> a_updated_at x),
      an_user_id = map_option a_user_id a,
      an_current_employer = (case a of None \<Rightarrow> None | Some x \<Rightarrow> current_employer x),
      an_job_title = (case a of None \<Rightarrow> None | Some x \<Rightarrow> job_title x),
      an_industry = (case a of None \<Rightarrow> None | Some x \<Rightarrow> industry x),
      an_location = (case a of None \<Rightarrow> None | Some x \<Rightarrow> location x),
      an_linkedin_url = (case a of None \<Rightarrow> None | Some x \<Rightarrow> linkedin_url x),
      an_mentorship_available = map_option mentorship_available a\<rparr>"

definition User_getAlumniNetwork :: "nat \<Rightarrow> db \<Rightarrow> alumni_network_object option" where
  "User_getAlumniNetwork userId s =
     (case find (\<lambda>u. u_id u = userId \<and> user_type u = ''alumni'') (users s) of
        None \<Rightarrow> None
      | Some u \<Rightarrow> Some (row_object u (find (\<lambda>a. a_user_id a = u_id u) (alumni_network s))))"

section \<open>routes/professor.js\<close>

record professor_request =
  req_user :: "string option"        \<comment> \<open>the session's user, absent when not signed in\<close>
  body_name :: "string option"
  body_department :: "string option"

record response =
  status :: nat
  message :: string
  resp_id :: "nat option"

text \<open>
  Modelled from the spec: the declaration of the table \<^verbatim>\<open>professors\<close> is not among the
  sources; the spec makes the pair (name, department) unique, so
  \<^verbatim>\<open>INSERT OR IGNORE INTO professors (name, department)\<close> of a pair already present is
  ignored. An ignored insert leaves \<^verbatim>\<open>lastID\<close> as it was.
\<close>

definition insert_or_ignore_professor :: "string \<Rightarrow> string \<Rightarrow> db \<Rightarrow> db" where
  "insert_or_ignore_professor name dept s =
     (if list_ex (\<lambda>p. p_name p = name \<and> p_department p = dept) (professors s) then s
      else
        let i = next_rowid (map p_id (professors s)) in
        s\<lparr>professors := professors s @ [\<lparr>p_id = i, p_name = name, p_department = dept\<rparr>],
          lastID := i\<rparr>)"

definition or_unknown :: "string option \<Rightarrow> string" where
  \<comment> \<open>\<^verbatim>\<open>department || 'Unknown'\<close>\<close>
  "or_unknown d = (case d of None \<Rightarrow> ''Unknown'' | Some x \<Rightarrow> if x = [] then ''Unknown'' else x)"

definition professors_post :: "professor_request \<Rightarrow> db \<Rightarrow> response \<times> db" where
  "professors_post req s =
     (case req_user req of
        None \<Rightarrow> (\<lparr>status = 401, message = ''Not authenticated'', resp_id = None\<rparr>, s)
      | Some _ \<Rightarrow>
          (case body_name req of
             None \<Rightarrow> (\<lparr>status = 400, message = ''Name is required'', resp_id = None\<rparr>, s)
           | Some name \<Rightarrow>
               if name = [] then (\<lparr>status = 400, message = ''Name is required'', resp_id = None\<rparr>, s)
               else
                 let s' = insert_or_ignore_professor name (or_unknown (body_department req)) s
                 in (\<lparr>status = 200, message = ''Professor added!'', resp_id = Some (lastID s')\<rparr>, s')))"

section \<open>A small store\<close>

text \<open>
  One course with one review rated 0, one professor, and one alumna without a profile
  row. The concrete instances of the theorems below are computed on it.
\<close>

definition comp3030 :: course where
  "comp3030 = \<lparr>c_id = 1, course_code = ''COMP 3030'', course_name = ''Algorithms'',
                department = ''COMP'', description = Some ''Sorting and graphs'',
                c_created_at = 100\<rparr>"

definition review0 :: review where
  "review0 = \<lparr>r_id = 1, r_user_id = 1, r_course_id = 1, r_professor_id = None, rating = 0,
               difficulty = 3, comment = None, would_recommend = Some True,
               semester_taken = Some ''Fall'', year_taken = Some 2024, r_created_at = 150\<rparr>"

definition jane :: professor where
  "jane = \<lparr>p_id = 1, p_name = ''Dr. Jane Lee'', p_department = ''COMP''\<rparr>"

definition ada :: user where
  "ada = \<lparr>u_id = 1, microsoft_id = ''ms-1'', email = ''ada@example.edu'', u_name = ''Ada'',
           avatar_url = None, user_type = ''alumni'', graduation_year = Some 2020,
           major = Some ''COMP'', enrollment_year = Some 2016, last_login = 120,
           u_created_at = 90, u_updated_at = None\<rparr>"

definition store0 :: db where
  "store0 = \<lparr>courses = [comp3030], reviews = [review0], professors = [jane], users = [ada],
              alumni_network = [], foreign_keys = True, lastID = 1\<rparr>"

definition bob :: profile where
  "bob = \<lparr>pr_id = ''ms-2'', emails = [''bob@example.edu''], displayName = ''Bob'', photos = []\<rparr>"

definition bob_row :: user where
  "bob_row = \<lparr>u_id = 2, microsoft_id = ''ms-2'', email = ''bob@example.edu'', u_name = ''Bob'',
               avatar_url = None, user_type = ''current'', graduation_year = None,
               major = None, enrollment_year = None, last_login = 300,
               u_created_at = 300, u_updated_at = None\<rparr>"

definition bob_profile :: alumni where
  "bob_profile = \<lparr>a_id = 1, a_user_id = 2, current_employer = Some ''Initech'',
                   job_title = None, industry = None, location = None, linkedin_url = None,
                   mentorship_available = False, a_updated_at = None\<rparr>"

definition acme :: alumni_data where
  "acme = \<lparr>ad_graduation_year = Some 2020, ad_current_employer = Some ''Acme'',
            ad_job_title = Some ''Engineer'', ad_industry = None, ad_location = None,
            ad_linkedin_url = None, ad_mentorship_available = None\<rparr>"

definition globex :: alumni_data where
  "globex = \<lparr>ad_graduation_year = None, ad_current_employer = Some ''Globex'',
              ad_job_title = Some ''Engineer'', ad_industry = None, ad_location = None,
              ad_linkedin_url = None, ad_mentorship_available = Some True\<rparr>"

definition jane_request :: professor_request where
  "jane_request = \<lparr>req_user = Some ''Ada'', body_name = Some ''Dr. Jane Lee'',
                    body_department = Some ''COMP''\<rparr>"

definition kim_request :: professor_request where
  "kim_request = \<lparr>req_user = Some ''Ada'', body_name = Some ''Dr. Kim'',
                   body_department = None\<rparr>"

section \<open>Fresh row ids and lookups\<close>

lemma fold_max_ge: "a \<le> fold max ids (a::nat)"
  by (induction ids arbitrary: a) (auto intro: order_trans [OF max.cobounded2])

lemma fold_max_mem: "x \<in> set ids \<Longrightarrow> x \<le> fold max ids (a::nat)"
  by (induction ids arbitrary: a) (auto intro: order_trans [OF max.cobounded1 fold_max_ge])

lemma next_rowid_fresh: "x \<in> set ids \<Longrightarrow> x \<noteq> next_rowid ids"
  using fold_max_mem [of x ids 0] by (auto simp: next_rowid_def)

lemma find_snoc_fresh: "\<forall>x \<in> set xs. \<not> P x \<Longrightarrow> P y \<Longrightarrow> find P (xs @ [y]) = Some y"
  by (induction xs) auto

section \<open>The course repository\<close>

subsection \<open>create\<close>

lemma insert_course_Inr:
  assumes "insert_course now code name dept descr s = Inr (res, s')"
  shows "\<exists>c. courses s' = courses s @ [c] \<and> c_id c = run_id res \<and> course_code c = code \<and>
             (\<forall>x \<in> set (courses s). c_id x \<noteq> c_id c) \<and>
             (\<forall>x \<in> set (courses s). course_code x \<noteq> code)"
proof -
  let ?i = "next_rowid (map c_id (courses s))"
  have fresh: "\<forall>x \<in> set (courses s). c_id x \<noteq> ?i"
    using next_rowid_fresh [of _ "map c_id (courses s)"] by auto
  from assms have nodup: "\<forall>x \<in> set (courses s). course_code x \<noteq> code"
    by (auto simp: insert_course_def list_ex_iff split: if_splits)
  from assms nodup have
    "courses s' = courses s @ [\<lparr>c_id = ?i, course_code = code, course_name = name,
        department = dept, description = descr, c_created_at = now\<rparr>]"
    and "run_id res = ?i"
    by (auto simp: insert_course_def list_ex_iff Let_def)
  with fresh nodup show ?thesis by simp
qed

text \<open>
  C5. When \<^verbatim>\<open>course_code\<close>, \<^verbatim>\<open>course_name\<close> or \<^verbatim>\<open>department\<close> is missing or empty,
  \<^verbatim>\<open>create\<close> fails with the validation error and the store stays as it was: no course
  row is added.
\<close>

theorem Course_create_rejects_missing_fields:
  assumes "cd_course_code f = None \<or> cd_course_code f = Some [] \<or>
           cd_course_name f = None \<or> cd_course_name f = Some [] \<or>
           cd_department f = None \<or> cd_department f = Some []"
  shows "Course_create now f s = (Inl missing_required, s)"
  using assms by (auto simp: Course_create_def)

theorem Course_create_rejects_missing_fields_witness:
  "cd_department \<lparr>cd_course_code = Some ''COMP 2040'', cd_course_name = Some [],
       cd_department = None, cd_description = None\<rparr> = None \<and>
   Course_create 200 \<lparr>cd_course_code = Some ''COMP 2040'', cd_course_name = Some [],
       cd_department = None, cd_description = None\<rparr> store0 = (Inl missing_required, store0) \<and>
   courses store0 = [comp3030]"
  using Course_create_rejects_missing_fields
    [of "\<lparr>cd_course_code = Some ''COMP 2040'', cd_course_name = Some [],
       cd_department = None, cd_description = None\<rparr>" 200 store0]
  by (simp add: store0_def)

text \<open>
  C7. When \<^verbatim>\<open>create\<close> returns, it returns the row it inserted, read back from the store
  by the generated id, and \<^verbatim>\<open>findByCode\<close> on that row's code, called on the store
  \<^verbatim>\<open>create\<close> left, returns the same record. The row is new: it is appended to the
  table under an id no older row has, and carries the code of the input.
\<close>

theorem Course_create_findByCode:
  assumes "Course_create now f s = (Inr r, s')"
  shows "\<exists>c. r = Some c \<and> Course_findByCode (course_code c) s' = Some c \<and>
             Course_findById (c_id c) s' = Some c \<and>
             cd_course_code f = Some (course_code c) \<and>
             courses s' = courses s @ [c] \<and> c_id c \<notin> c_id ` set (courses s)"
proof -
  from assms obtain code name dept descr res where
    f: "cd_course_code f = Some code"
    and ins: "insert_course now code name dept descr s = Inr (res, s')"
    and r: "r = Course_findById (run_id res) s'"
    by (auto simp: Course_create_def split: if_splits option.splits sum.splits prod.splits)
  from insert_course_Inr [OF ins] obtain c where
    c: "courses s' = courses s @ [c]" "c_id c = run_id res" "course_code c = code"
       "\<forall>x \<in> set (courses s). c_id x \<noteq> c_id c"
       "\<forall>x \<in> set (courses s). course_code x \<noteq> code"
    by blast
  have byid: "Course_findById (c_id c) s' = Some c"
    unfolding Course_findById_def c(1) using c(4) by (intro find_snoc_fresh) auto
  have bycode: "Course_findByCode (course_code c) s' = Some c"
    unfolding Course_findByCode_def c(1) using c(3,5) by (intro find_snoc_fresh) auto
  show ?thesis using byid bycode f c r by auto
qed

theorem Course_create_findByCode_witness:
  "Course_create 200 \<lparr>cd_course_code = Some ''COMP 2040'', cd_course_name = Some ''Systems'',
       cd_department = Some ''COMP'', cd_description = Some []\<rparr> store0 =
     (Inr (Some \<lparr>c_id = 2, course_code = ''COMP 2040'', course_name = ''Systems'',
                  department = ''COMP'', description = None, c_created_at = 200\<rparr>),
      store0\<lparr>courses := [comp3030, \<lparr>c_id = 2, course_code = ''COMP 2040'',
                  course_name = ''Systems'', department = ''COMP'', description = None,
                  c_created_at = 200\<rparr>], lastID := 2\<rparr>) \<and>
   Course_findByCode ''COMP 2040''
     (store0\<lparr>courses := [comp3030, \<lparr>c_id = 2, course_code = ''COMP 2040'',
                  course_name = ''Systems'', department = ''COMP'', description = None,
                  c_created_at = 200\<rparr>], lastID := 2\<rparr>) =
     Some \<lparr>c_id = 2, course_code = ''COMP 2040'', course_name = ''Systems'',
            department = ''COMP'', description = None, c_created_at = 200\<rparr>"
proof -
  let ?f = "\<lparr>cd_course_code = Some ''COMP 2040'', cd_course_name = Some ''Systems'',
       cd_department = Some ''COMP'', cd_description = Some []\<rparr>"
  let ?c = "\<lparr>c_id = 2, course_code = ''COMP 2040'', course_name = ''Systems'',
             department = ''COMP'', description = None, c_created_at = 200\<rparr>"
  have run: "Course_create 200 ?f store0 =
      (Inr (Some ?c), store0\<lparr>courses := [comp3030, ?c], lastID := 2\<rparr>)"
    by (simp add: Course_create_def insert_course_def Course_findById_def store0_def
        comp3030_def next_rowid_def Let_def)
  from Course_create_findByCode [OF run] run show ?thesis by auto
qed

subsection \<open>delete\<close>

text \<open>
  C3, as the claim states it: the error of \<^verbatim>\<open>delete\<close> on a course with a review carries
  the all lower case message. On the small store it does not.
\<close>

theorem Course_delete_message_counterexample:
  "fst (Course_delete 1 store0) \<noteq> Inl (Error ''cannot delete course with existing reviews'')"
  by (simp add: Course_delete_def store0_def review0_def)

text \<open>
  C3, amended. For a course id that at least one review references, \<^verbatim>\<open>delete\<close> fails
  with the error whose message is \<^verbatim>\<open>Cannot delete course with existing reviews\<close>, and
  the store (the course row and every other row) is left as it was.
\<close>

theorem Course_delete_with_reviews:
  assumes "r \<in> set (reviews s)" and "r_course_id r = i"
  shows "Course_delete i s = (Inl (Error ''Cannot delete course with existing reviews''), s)"
proof -
  from assms have "filter (\<lambda>r. r_course_id r = i) (reviews s) \<noteq> []"
    by (auto simp: filter_empty_conv)
  then show ?thesis by (simp add: Course_delete_def)
qed

theorem Course_delete_with_reviews_witness:
  "review0 \<in> set (reviews store0) \<and> r_course_id review0 = 1 \<and>
   Course_delete 1 store0 = (Inl (Error ''Cannot delete course with existing reviews''), store0) \<and>
   Course_findById 1 store0 = Some comp3030"
  using Course_delete_with_reviews [of review0 store0 1]
  by (simp add: store0_def review0_def Course_findById_def comp3030_def)

subsection \<open>search\<close>















subsection \<open>getCourseWithReviews\<close>

lemma fl64_zero: "fl64 0 = 0"
  by (simp add: fl64_def)

text \<open>
  The count is the number of review rows of the course, the reviews come newest first,
  and a course without reviews has no average.
\<close>

lemma getCourseWithReviews_review_count:
  assumes "Course_findById i s = Some c"
  shows "\<exists>r. Course_getCourseWithReviews i s = Some r \<and> cwr_course r = c \<and>
             review_count r = length (filter (\<lambda>r. r_course_id r = i) (reviews s)) \<and>
             map fst (cwr_reviews r) =
               sort_key (\<lambda>r. - int (r_created_at r)) (filter (\<lambda>r. r_course_id r = i) (reviews s))"
  using assms by (simp add: Course_getCourseWithReviews_def Let_def comp_def)

lemma getCourseWithReviews_no_reviews:
  assumes "Course_findById i s = Some c" "filter (\<lambda>r. r_course_id r = i) (reviews s) = []"
  shows "\<exists>r. Course_getCourseWithReviews i s = Some r \<and> review_count r = 0 \<and> average_rating r = None"
  using assms by (simp add: Course_getCourseWithReviews_def Let_def)

text \<open>
  C1. The claim makes \<^verbatim>\<open>average_rating\<close> absent exactly when the course has no review.
  The course of the small store has one review, rated 0: \<^verbatim>\<open>review_count\<close> is 1 and
  \<^verbatim>\<open>average_rating\<close> is absent, because the mean 0 fails the truthiness test that
  guards the rounding.
\<close>

theorem getCourseWithReviews_zero_mean:
  "map_option (\<lambda>r. (review_count r, average_rating r)) (Course_getCourseWithReviews 1 store0)
     = Some (1, None)"
  by (simp add: Course_getCourseWithReviews_def Course_findById_def store0_def comp3030_def
      review0_def Let_def fl64_zero)

text \<open>
  The spec's example, ratings 5, 4 and 3, and a mean that lies between two tenths: the
  double nearest to 4.35 is below it, and \<^verbatim>\<open>toFixed\<close> rounds that double.
\<close>

lemma getCourseWithReviews_spec_example:
  "map_option (\<lambda>r. (review_count r, average_rating r))
     (Course_getCourseWithReviews 1
        (store0\<lparr>reviews := [review0\<lparr>rating := 5\<rparr>, review0\<lparr>r_id := 2, rating := 4\<rparr>,
                             review0\<lparr>r_id := 3, rating := 3\<rparr>]\<rparr>))
     = Some (3, Some 4)"
  by code_simp

lemma toFixed1_double_435: "toFixed1 (fl64 (87 / 20)) = 43 / 10"
  by code_simp

section \<open>The user repository\<close>

subsection \<open>findOrCreateFromMicrosoft\<close>

lemma find_map_row: "find P (map f xs) = map_option f (find (\<lambda>x. P (f x)) xs)"
  by (induction xs) auto

lemma findByMicrosoftId_updateLastLogin:
  assumes "User_findByMicrosoftId mid s = Some u"
  shows "User_findByMicrosoftId mid (User_updateLastLogin t (u_id u) s) = Some (u\<lparr>last_login := t\<rparr>)"
proof -
  let ?g = "\<lambda>x. if u_id x = u_id u then x\<lparr>last_login := t\<rparr> else x"
  have same: "(\<lambda>x. microsoft_id (?g x) = mid) = (\<lambda>x. microsoft_id x = mid)"
    by (rule ext) simp
  have "find (\<lambda>x. microsoft_id x = mid) (map ?g (users s))
      = map_option ?g (find (\<lambda>x. microsoft_id (?g x) = mid) (users s))"
    by (rule find_map_row)
  also have "\<dots> = map_option ?g (Some u)"
    using assms unfolding same User_findByMicrosoftId_def by simp
  also have "\<dots> = Some (u\<lparr>last_login := t\<rparr>)" by simp
  finally show ?thesis by (simp add: User_findByMicrosoftId_def User_updateLastLogin_def)
qed

lemma findOrCreate_known:
  assumes "User_findByMicrosoftId (pr_id p) s = Some u"
  shows "User_findOrCreateFromMicrosoft t p ty s = (Inr (Some u), User_updateLastLogin t (u_id u) s)"
  using assms by (simp add: User_findOrCreateFromMicrosoft_def)

lemma findOrCreate_new:
  assumes "User_findByMicrosoftId (pr_id p) s = None" and "emails p \<noteq> []"
  shows "\<exists>u. User_findOrCreateFromMicrosoft t p ty s = (Inr (Some u), s\<lparr>users := users s @ [u], lastID := u_id u\<rparr>)
           \<and> microsoft_id u = pr_id p \<and> last_login u = t
           \<and> User_findByMicrosoftId (pr_id p) (s\<lparr>users := users s @ [u], lastID := u_id u\<rparr>) = Some u"
proof -
  from assms(2) obtain e es where e: "emails p = e # es" by (cases "emails p") auto
  let ?i = "next_rowid (map u_id (users s))"
  from assms(1) have none: "\<forall>x \<in> set (users s). microsoft_id x \<noteq> pr_id p"
    by (auto simp: User_findByMicrosoftId_def find_None_iff)
  have fresh: "\<forall>x \<in> set (users s). u_id x \<noteq> ?i"
    using next_rowid_fresh [of _ "map u_id (users s)"] by auto
  define u where "u = \<lparr>u_id = ?i, microsoft_id = pr_id p, email = e, u_name = displayName p,
      avatar_url = (case photos p of [] \<Rightarrow> None | ph # _ \<Rightarrow> Some ph),
      user_type = (case ty of None \<Rightarrow> ''current'' | Some t \<Rightarrow> t), graduation_year = None,
      major = None, enrollment_year = None, last_login = t, u_created_at = t,
      u_updated_at = None\<rparr>"
  have byid: "find (\<lambda>x. u_id x = ?i) (users s @ [u]) = Some u"
    using fresh by (intro find_snoc_fresh) (auto simp: u_def)
  have bymid: "find (\<lambda>x. microsoft_id x = pr_id p) (users s @ [u]) = Some u"
    using none by (intro find_snoc_fresh) (auto simp: u_def)
  have "User_findOrCreateFromMicrosoft t p ty s = (Inr (Some u), s\<lparr>users := users s @ [u], lastID := u_id u\<rparr>)"
    using assms(1) e none byid
    by (simp add: User_findOrCreateFromMicrosoft_def User_create_def insert_user_def Let_def
        list_ex_iff User_findById_def u_def)
  moreover have "microsoft_id u = pr_id p" "last_login u = t" by (simp_all add: u_def)
  ultimately show ?thesis using bymid by (auto simp: User_findByMicrosoftId_def)
qed

lemma findOrCreate_first:
  assumes "emails p \<noteq> []" and "User_findOrCreateFromMicrosoft t p ty s = (r, s')"
  shows "\<exists>u1 u. r = Inr (Some u1) \<and> User_findByMicrosoftId (pr_id p) s' = Some u \<and>
           u_id u = u_id u1 \<and> last_login u = t"
proof (cases "User_findByMicrosoftId (pr_id p) s")
  case None
  from findOrCreate_new [OF None assms(1), of t ty] assms(2) show ?thesis by auto
next
  case (Some u)
  from findOrCreate_known [OF Some, of t ty] assms(2)
  have "r = Inr (Some u)" "s' = User_updateLastLogin t (u_id u) s" by auto
  with findByMicrosoftId_updateLastLogin [OF Some, of t] show ?thesis by auto
qed

text \<open>
  C4. Two calls of \<^verbatim>\<open>findOrCreateFromMicrosoft\<close> with the same profile, the second no
  earlier than the first: both return a user, with the same id; the second call adds no
  row and changes nothing in the store but \<^verbatim>\<open>last_login\<close> of the rows with that id;
  the record the second call returns, and the one the store holds for the external id
  afterwards, have a \<^verbatim>\<open>last_login\<close> no earlier than the first call.
\<close>

theorem findOrCreate_twice:
  assumes "emails p \<noteq> []" and "t1 \<le> t2"
    and "User_findOrCreateFromMicrosoft t1 p ty1 s = (r1, s1)"
    and "User_findOrCreateFromMicrosoft t2 p ty2 s1 = (r2, s2)"
  shows "\<exists>u1 u2. r1 = Inr (Some u1) \<and> r2 = Inr (Some u2) \<and> u_id u1 = u_id u2 \<and>
           users s2 = map (\<lambda>u. if u_id u = u_id u2 then u\<lparr>last_login := t2\<rparr> else u) (users s1) \<and>
           s2 = s1\<lparr>users := users s2\<rparr> \<and>
           length (users s2) = length (users s1) \<and>
           t1 \<le> last_login u2 \<and>
           User_findByMicrosoftId (pr_id p) s2 = Some (u2\<lparr>last_login := t2\<rparr>) \<and>
           t1 \<le> last_login (u2\<lparr>last_login := t2\<rparr>)"
proof -
  from findOrCreate_first [OF assms(1,3)] obtain u1 u where
    u: "r1 = Inr (Some u1)" "User_findByMicrosoftId (pr_id p) s1 = Some u" "u_id u = u_id u1"
       "last_login u = t1" by blast
  from findOrCreate_known [OF u(2), of t2 ty2] assms(4)
  have r2: "r2 = Inr (Some u)" and s2: "s2 = User_updateLastLogin t2 (u_id u) s1" by auto
  have "users s2 = map (\<lambda>x. if u_id x = u_id u then x\<lparr>last_login := t2\<rparr> else x) (users s1)"
    and "s2 = s1\<lparr>users := users s2\<rparr>"
    by (simp_all add: s2 User_updateLastLogin_def)
  moreover have "User_findByMicrosoftId (pr_id p) s2 = Some (u\<lparr>last_login := t2\<rparr>)"
    unfolding s2 by (rule findByMicrosoftId_updateLastLogin [OF u(2)])
  ultimately show ?thesis using u r2 assms(2) by auto
qed

theorem findOrCreate_twice_witness:
  "emails bob \<noteq> [] \<and> (300::nat) \<le> 400 \<and>
   User_findOrCreateFromMicrosoft 300 bob None store0 =
     (Inr (Some bob_row), store0\<lparr>users := [ada, bob_row], lastID := 2\<rparr>) \<and>
   User_findOrCreateFromMicrosoft 400 bob None (store0\<lparr>users := [ada, bob_row], lastID := 2\<rparr>) =
     (Inr (Some bob_row), store0\<lparr>users := [ada, bob_row\<lparr>last_login := 400\<rparr>], lastID := 2\<rparr>) \<and>
   User_findByMicrosoftId (pr_id bob) (store0\<lparr>users := [ada, bob_row\<lparr>last_login := 400\<rparr>], lastID := 2\<rparr>)
     = Some (bob_row\<lparr>last_login := 400\<rparr>)"
proof -
  have h1: "emails bob \<noteq> []" by (simp add: bob_def)
  have h2: "(300::nat) \<le> 400" by simp
  have h3: "User_findOrCreateFromMicrosoft 300 bob None store0 =
     (Inr (Some bob_row), store0\<lparr>users := [ada, bob_row], lastID := 2\<rparr>)"
    by (simp add: User_findOrCreateFromMicrosoft_def User_findByMicrosoftId_def User_create_def
        insert_user_def User_findById_def Let_def next_rowid_def store0_def ada_def bob_def
        bob_row_def)
  have h4: "User_findOrCreateFromMicrosoft 400 bob None (store0\<lparr>users := [ada, bob_row], lastID := 2\<rparr>) =
     (Inr (Some bob_row), store0\<lparr>users := [ada, bob_row\<lparr>last_login := 400\<rparr>], lastID := 2\<rparr>)"
    by (simp add: User_findOrCreateFromMicrosoft_def User_findByMicrosoftId_def
        User_updateLastLogin_def store0_def ada_def bob_def bob_row_def)
  from findOrCreate_twice [OF h1 h2 h3 h4]
  have "User_findByMicrosoftId (pr_id bob) (store0\<lparr>users := [ada, bob_row\<lparr>last_login := 400\<rparr>], lastID := 2\<rparr>)
     = Some (bob_row\<lparr>last_login := 400\<rparr>)" by auto
  with h1 h2 h3 h4 show ?thesis by simp
qed

subsection \<open>updateUserType and updateAlumniNetwork\<close>

lemma updateUserType_users:
  "users (snd (User_updateUserType now uid ty gy s)) =
     map (\<lambda>u. if u_id u = uid
               then u\<lparr>user_type := ty, graduation_year := gy, u_updated_at := Some now\<rparr>
               else u) (users s)"
  by (simp add: User_updateUserType_def Let_def)

lemma updateUserType_alumni_network:
  "alumni_network (snd (User_updateUserType now uid ty gy s)) = alumni_network s"
  "foreign_keys (snd (User_updateUserType now uid ty gy s)) = foreign_keys s"
  by (simp_all add: User_updateUserType_def Let_def)

lemma update_alumni_users: "users (update_alumni now uid d m s) = users s"
  by (simp add: update_alumni_def)

lemma insert_alumni_users: "insert_alumni uid d m s = Inr (res, s') \<Longrightarrow> users s' = users s"
  by (auto simp: insert_alumni_def Let_def split: if_splits)

lemma updateAlumniNetwork_update:
  assumes "s1 = snd (User_updateUserType now uid ''alumni'' (ad_graduation_year d) s)"
    and "m = (case ad_mentorship_available d of None \<Rightarrow> False | Some b \<Rightarrow> b)"
    and "alumni_of uid s1 = Some existing"
  shows "User_updateAlumniNetwork now uid d s =
           (Inr (alumni_of uid (update_alumni now uid d m s1)), update_alumni now uid d m s1)"
  unfolding User_updateAlumniNetwork_def Let_def assms(1) [symmetric] assms(2) [symmetric]
  by (simp add: assms(3))

lemma updateAlumniNetwork_refused:
  assumes "s1 = snd (User_updateUserType now uid ''alumni'' (ad_graduation_year d) s)"
    and "m = (case ad_mentorship_available d of None \<Rightarrow> False | Some b \<Rightarrow> b)"
    and "alumni_of uid s1 = None" and "insert_alumni uid d m s1 = Inl e"
  shows "User_updateAlumniNetwork now uid d s = (Inl e, s1)"
  unfolding User_updateAlumniNetwork_def Let_def assms(1) [symmetric] assms(2) [symmetric]
  by (simp add: assms(3,4))

lemma updateAlumniNetwork_insert:
  assumes "s1 = snd (User_updateUserType now uid ''alumni'' (ad_graduation_year d) s)"
    and "m = (case ad_mentorship_available d of None \<Rightarrow> False | Some b \<Rightarrow> b)"
    and "alumni_of uid s1 = None" and "insert_alumni uid d m s1 = Inr (res, s2)"
  shows "User_updateAlumniNetwork now uid d s = (Inr (alumni_of uid s2), s2)"
  unfolding User_updateAlumniNetwork_def Let_def assms(1) [symmetric] assms(2) [symmetric]
  by (simp add: assms(3,4))

lemma updateAlumniNetwork_users:
  "users (snd (User_updateAlumniNetwork now uid d s)) =
     map (\<lambda>u. if u_id u = uid
               then u\<lparr>user_type := ''alumni'', graduation_year := ad_graduation_year d,
                      u_updated_at := Some now\<rparr>
               else u) (users s)"
proof -
  define s1 where "s1 = snd (User_updateUserType now uid ''alumni'' (ad_graduation_year d) s)"
  define m where "m = (case ad_mentorship_available d of None \<Rightarrow> False | Some b \<Rightarrow> b)"
  have s1: "users s1 = map (\<lambda>u. if u_id u = uid
               then u\<lparr>user_type := ''alumni'', graduation_year := ad_graduation_year d,
                      u_updated_at := Some now\<rparr>
               else u) (users s)"
    unfolding s1_def by (rule updateUserType_users)
  show ?thesis
  proof (cases "alumni_of uid s1")
    case (Some existing)
    from updateAlumniNetwork_update [OF s1_def m_def Some]
    show ?thesis by (simp only: snd_conv update_alumni_users s1)
  next
    case None
    show ?thesis
    proof (cases "insert_alumni uid d m s1")
      case (Inl e)
      from updateAlumniNetwork_refused [OF s1_def m_def None Inl]
      show ?thesis by (simp only: snd_conv s1)
    next
      case (Inr p)
      obtain res s2 where p: "p = (res, s2)" by (cases p)
      from updateAlumniNetwork_insert [OF s1_def m_def None Inr [unfolded p]]
        insert_alumni_users [OF Inr [unfolded p]]
      show ?thesis by (simp only: snd_conv s1)
    qed
  qed
qed

text \<open>
  C9. Every call of \<^verbatim>\<open>updateAlumniNetwork\<close> rewrites, in each user row with the given id,
  \<^verbatim>\<open>user_type\<close> to \<^verbatim>\<open>alumni\<close> and \<^verbatim>\<open>graduation_year\<close> to that of the payload (and
  stamps \<^verbatim>\<open>updated_at\<close>), and leaves the other user rows alone. A payload without
  \<^verbatim>\<open>graduation_year\<close> overwrites the stored year with \<^verbatim>\<open>NULL\<close>, whether or not a
  profile row already exists.
\<close>

theorem updateAlumniNetwork_reclassifies:
  "users (snd (User_updateAlumniNetwork now uid d s)) =
     map (\<lambda>u. if u_id u = uid
               then u\<lparr>user_type := ''alumni'', graduation_year := ad_graduation_year d,
                      u_updated_at := Some now\<rparr>
               else u) (users s) \<and>
   (\<forall>u \<in> set (users (snd (User_updateAlumniNetwork now uid d s))).
      u_id u = uid \<longrightarrow> user_type u = ''alumni'' \<and> graduation_year u = ad_graduation_year d) \<and>
   (ad_graduation_year d = None \<longrightarrow>
      (\<forall>u \<in> set (users (snd (User_updateAlumniNetwork now uid d s))).
         u_id u = uid \<longrightarrow> graduation_year u = None))"
proof -
  let ?f = "\<lambda>u. if u_id u = uid
               then u\<lparr>user_type := ''alumni'', graduation_year := ad_graduation_year d,
                      u_updated_at := Some now\<rparr>
               else u"
  let ?us = "users (snd (User_updateAlumniNetwork now uid d s))"
  have eq: "?us = map ?f (users s)" by (rule updateAlumniNetwork_users)
  have row: "user_type u = ''alumni'' \<and> graduation_year u = ad_graduation_year d"
    if "u \<in> set ?us" "u_id u = uid" for u
  proof -
    from that(1) obtain x where x: "x \<in> set (users s)" "u = ?f x" unfolding eq by auto
    show ?thesis
    proof (cases "u_id x = uid")
      case True
      with x show ?thesis by simp
    next
      case False
      with x that(2) show ?thesis by simp
    qed
  qed
  show ?thesis
  proof (intro conjI ballI impI)
    show "?us = map ?f (users s)" by (rule eq)
  qed (use row in simp_all)
qed

theorem updateAlumniNetwork_reclassifies_witness:
  "graduation_year ada = Some 2020 \<and> ad_graduation_year globex = None \<and>
   alumni_network (snd (User_updateAlumniNetwork 500 1 acme store0)) \<noteq> [] \<and>
   users (snd (User_updateAlumniNetwork 500 1 acme store0)) = [ada\<lparr>u_updated_at := Some 500\<rparr>] \<and>
   users (snd (User_updateAlumniNetwork 600 1 globex (snd (User_updateAlumniNetwork 500 1 acme store0))))
     = [ada\<lparr>graduation_year := None, u_updated_at := Some 600\<rparr>]"
proof -
  have g: "graduation_year ada = Some 2020" "ad_graduation_year globex = None"
    "ad_graduation_year acme = Some 2020" "user_type ada = ''alumni''" "u_id ada = 1"
    by (simp_all add: ada_def globex_def acme_def)
  have p: "alumni_network (snd (User_updateAlumniNetwork 500 1 acme store0)) \<noteq> []"
    by code_simp
  have u0: "users store0 = [ada]" by (simp add: store0_def)
  from updateAlumniNetwork_reclassifies [of 500 1 acme store0]
  have u1: "users (snd (User_updateAlumniNetwork 500 1 acme store0)) = [ada\<lparr>u_updated_at := Some 500\<rparr>]"
    unfolding u0 using g by (simp add: ada_def)
  from updateAlumniNetwork_reclassifies [of 600 1 globex "snd (User_updateAlumniNetwork 500 1 acme store0)"]
  have u2: "users (snd (User_updateAlumniNetwork 600 1 globex (snd (User_updateAlumniNetwork 500 1 acme store0))))
     = [ada\<lparr>graduation_year := None, u_updated_at := Some 600\<rparr>]"
    unfolding u1 using g by (simp add: ada_def)
  from g p u1 u2 show ?thesis by simp
qed

lemma find_filter: "find P xs = (case filter P xs of [] \<Rightarrow> None | x # _ \<Rightarrow> Some x)"
  by (induction xs) auto

lemma filter_map_invariant:
  "(\<And>x. P (f x) = P x) \<Longrightarrow> filter P (map f xs) = map f (filter P xs)"
  by (induction xs) auto

lemma alumni_of_rows:
  "alumni_of uid s = (case filter (\<lambda>a. a_user_id a = uid) (alumni_network s) of
                        [] \<Rightarrow> None | a # _ \<Rightarrow> Some a)"
  unfolding alumni_of_def by (rule find_filter)

lemma update_alumni_rows:
  "filter (\<lambda>a. a_user_id a = v) (alumni_network (update_alumni now uid d m s)) =
     map (\<lambda>a. if a_user_id a = uid
               then a\<lparr>current_employer := ad_current_employer d, job_title := ad_job_title d,
                      industry := ad_industry d, location := ad_location d,
                      linkedin_url := ad_linkedin_url d, mentorship_available := m,
                      a_updated_at := Some now\<rparr>
               else a)
       (filter (\<lambda>a. a_user_id a = v) (alumni_network s))"
proof -
  let ?f = "\<lambda>a. if a_user_id a = uid
               then a\<lparr>current_employer := ad_current_employer d, job_title := ad_job_title d,
                      industry := ad_industry d, location := ad_location d,
                      linkedin_url := ad_linkedin_url d, mentorship_available := m,
                      a_updated_at := Some now\<rparr>
               else a"
  have "filter (\<lambda>a. a_user_id a = v) (map ?f xs) = map ?f (filter (\<lambda>a. a_user_id a = v) xs)" for xs
    by (rule filter_map_invariant) simp
  then show ?thesis by (simp add: update_alumni_def)
qed

lemma update_alumni_frame:
  "foreign_keys (update_alumni now uid d m s) = foreign_keys s"
  by (simp add: update_alumni_def)

lemma insert_alumni_Inr:
  assumes "insert_alumni uid d m s = Inr (res, s')"
  shows "\<exists>a. alumni_network s' = alumni_network s @ [a] \<and> a_user_id a = uid \<and>
             current_employer a = ad_current_employer d"
    and "foreign_keys s' = foreign_keys s"
  using assms by (auto simp: insert_alumni_def Let_def split: if_splits)

lemma insert_alumni_accepts:
  assumes "foreign_keys s \<longrightarrow> uid \<in> u_id ` set (users s)"
  shows "\<exists>res s'. insert_alumni uid d m s = Inr (res, s')"
  using assms by (auto simp: insert_alumni_def Let_def list_ex_iff)

lemma updateUserType_user_ids:
  "u_id ` set (users (snd (User_updateUserType now uid ty gy s))) = u_id ` set (users s)"
proof -
  have "map u_id (users (snd (User_updateUserType now uid ty gy s))) = map u_id (users s)"
    unfolding updateUserType_users by (induction "users s") auto
  then show ?thesis by (metis set_map)
qed

lemma updateAlumniNetwork_frame:
  "foreign_keys (snd (User_updateAlumniNetwork now uid d s)) = foreign_keys s"
  "u_id ` set (users (snd (User_updateAlumniNetwork now uid d s))) = u_id ` set (users s)"
proof -
  define s1 where "s1 = snd (User_updateUserType now uid ''alumni'' (ad_graduation_year d) s)"
  define m where "m = (case ad_mentorship_available d of None \<Rightarrow> False | Some b \<Rightarrow> b)"
  have fk1: "foreign_keys s1 = foreign_keys s"
    unfolding s1_def by (rule updateUserType_alumni_network)
  show "foreign_keys (snd (User_updateAlumniNetwork now uid d s)) = foreign_keys s"
  proof (cases "alumni_of uid s1")
    case (Some existing)
    from updateAlumniNetwork_update [OF s1_def m_def Some]
    show ?thesis by (simp only: snd_conv update_alumni_frame fk1)
  next
    case None
    show ?thesis
    proof (cases "insert_alumni uid d m s1")
      case (Inl e)
      from updateAlumniNetwork_refused [OF s1_def m_def None Inl]
      show ?thesis by (simp only: snd_conv fk1)
    next
      case (Inr p)
      obtain res s2 where p: "p = (res, s2)" by (cases p)
      from updateAlumniNetwork_insert [OF s1_def m_def None Inr [unfolded p]]
        insert_alumni_Inr(2) [OF Inr [unfolded p]]
      show ?thesis by (simp only: snd_conv fk1)
    qed
  qed
  have "map u_id (users (snd (User_updateAlumniNetwork now uid d s))) = map u_id (users s)"
    unfolding updateAlumniNetwork_users by (induction "users s") auto
  then show "u_id ` set (users (snd (User_updateAlumniNetwork now uid d s))) = u_id ` set (users s)"
    by (metis set_map)
qed

text \<open>One call, seen from the profile rows of any user \<open>v\<close>.\<close>

lemma updateAlumniNetwork_rows_le:
  assumes "length (filter (\<lambda>a. a_user_id a = v) (alumni_network s)) \<le> 1"
  shows "length (filter (\<lambda>a. a_user_id a = v)
           (alumni_network (snd (User_updateAlumniNetwork now uid d s)))) \<le> 1"
proof -
  define s1 where "s1 = snd (User_updateUserType now uid ''alumni'' (ad_graduation_year d) s)"
  define m where "m = (case ad_mentorship_available d of None \<Rightarrow> False | Some b \<Rightarrow> b)"
  have an1: "alumni_network s1 = alumni_network s"
    unfolding s1_def by (rule updateUserType_alumni_network)
  show ?thesis
  proof (cases "alumni_of uid s1")
    case (Some existing)
    from updateAlumniNetwork_update [OF s1_def m_def Some]
    have "snd (User_updateAlumniNetwork now uid d s) = update_alumni now uid d m s1" by simp
    then show ?thesis using assms by (simp only: update_alumni_rows length_map an1)
  next
    case None
    then have empty: "filter (\<lambda>a. a_user_id a = uid) (alumni_network s) = []"
      unfolding alumni_of_rows an1 by (simp split: list.splits)
    show ?thesis
    proof (cases "insert_alumni uid d m s1")
      case (Inl e)
      from updateAlumniNetwork_refused [OF s1_def m_def None Inl]
      have "snd (User_updateAlumniNetwork now uid d s) = s1" by simp
      then show ?thesis using assms by (simp only: an1)
    next
      case (Inr p)
      obtain res s2 where p: "p = (res, s2)" by (cases p)
      from updateAlumniNetwork_insert [OF s1_def m_def None Inr [unfolded p]]
      have s2: "snd (User_updateAlumniNetwork now uid d s) = s2" by simp
      from insert_alumni_Inr(1) [OF Inr [unfolded p]] obtain a where
        a: "alumni_network s2 = alumni_network s @ [a]" "a_user_id a = uid"
        unfolding an1 by blast
      show ?thesis
      proof (cases "v = uid")
        case True
        with empty a show ?thesis unfolding s2 by simp
      next
        case False
        with assms a show ?thesis unfolding s2 by simp
      qed
    qed
  qed
qed

lemma updateAlumniNetwork_one_row:
  assumes inv: "length (filter (\<lambda>a. a_user_id a = uid) (alumni_network s)) \<le> 1"
    and fk: "foreign_keys s \<longrightarrow> uid \<in> u_id ` set (users s)"
  shows "\<exists>a. filter (\<lambda>a. a_user_id a = uid)
                (alumni_network (snd (User_updateAlumniNetwork now uid d s))) = [a] \<and>
             current_employer a = ad_current_employer d \<and>
             fst (User_updateAlumniNetwork now uid d s) = Inr (Some a)"
proof -
  define s1 where "s1 = snd (User_updateUserType now uid ''alumni'' (ad_graduation_year d) s)"
  define m where "m = (case ad_mentorship_available d of None \<Rightarrow> False | Some b \<Rightarrow> b)"
  have an1: "alumni_network s1 = alumni_network s"
    unfolding s1_def by (rule updateUserType_alumni_network)
  have fk1: "foreign_keys s1 \<longrightarrow> uid \<in> u_id ` set (users s1)"
    using fk unfolding s1_def updateUserType_alumni_network updateUserType_user_ids .
  show ?thesis
  proof (cases "alumni_of uid s1")
    case (Some existing)
    from Some inv obtain x where x: "filter (\<lambda>a. a_user_id a = uid) (alumni_network s) = [x]"
      unfolding alumni_of_rows an1
      by (cases "filter (\<lambda>a. a_user_id a = uid) (alumni_network s)") (auto split: list.splits)
    have "x \<in> set (filter (\<lambda>a. a_user_id a = uid) (alumni_network s))"
      unfolding x by simp
    then have "a_user_id x = uid" by simp
    let ?s2 = "update_alumni now uid d m s1"
    from updateAlumniNetwork_update [OF s1_def m_def Some]
    have call: "User_updateAlumniNetwork now uid d s = (Inr (alumni_of uid ?s2), ?s2)" .
    have rows: "filter (\<lambda>a. a_user_id a = uid) (alumni_network ?s2) =
        [x\<lparr>current_employer := ad_current_employer d, job_title := ad_job_title d,
            industry := ad_industry d, location := ad_location d,
            linkedin_url := ad_linkedin_url d, mentorship_available := m,
            a_updated_at := Some now\<rparr>]"
      unfolding update_alumni_rows an1 x using \<open>a_user_id x = uid\<close> by simp
    show ?thesis unfolding call fst_conv snd_conv alumni_of_rows rows by simp
  next
    case None
    then have empty: "filter (\<lambda>a. a_user_id a = uid) (alumni_network s) = []"
      unfolding alumni_of_rows an1 by (simp split: list.splits)
    from insert_alumni_accepts [OF fk1] obtain res s2 where
      ins: "insert_alumni uid d m s1 = Inr (res, s2)" by blast
    from updateAlumniNetwork_insert [OF s1_def m_def None ins]
    have call: "User_updateAlumniNetwork now uid d s = (Inr (alumni_of uid s2), s2)" .
    from insert_alumni_Inr(1) [OF ins] obtain a where
      a: "alumni_network s2 = alumni_network s @ [a]" "a_user_id a = uid"
         "current_employer a = ad_current_employer d"
      unfolding an1 by blast
    have rows: "filter (\<lambda>a. a_user_id a = uid) (alumni_network s2) = [a]"
      using a(1,2) empty by simp
    show ?thesis unfolding call fst_conv snd_conv alumni_of_rows rows using a(3) by simp
  qed
qed

lemma updateAlumniNetwork_runs_le:
  assumes "length (filter (\<lambda>a. a_user_id a = v) (alumni_network s0)) \<le> 1"
  shows "length (filter (\<lambda>a. a_user_id a = v)
           (alumni_network (foldl (\<lambda>st (n, i, x). snd (User_updateAlumniNetwork n i x st)) s0 calls))) \<le> 1"
  using assms
proof (induction calls arbitrary: s0)
  case Nil
  then show ?case by simp
next
  case (Cons c calls)
  obtain t i d where c: "c = (t, i, d)" by (cases c)
  from Cons.prems have "length (filter (\<lambda>a. a_user_id a = v)
      (alumni_network (snd (User_updateAlumniNetwork t i d s0)))) \<le> 1"
    by (rule updateAlumniNetwork_rows_le)
  from Cons.IH [OF this] show ?case by (simp add: c)
qed

text \<open>
  C2. Starting from a store with at most one profile row for the user (and, where the
  connection enforces foreign keys, a user row for the id), two calls of
  \<^verbatim>\<open>updateAlumniNetwork\<close> in sequence leave exactly one profile row keyed by that
  \<^verbatim>\<open>user_id\<close>; it holds the \<^verbatim>\<open>current_employer\<close> of the second payload and is the row
  the second call returns. No sequence of calls, for whatever users and payloads, takes
  the number of profile rows of a user from at most one to more than one.
\<close>

theorem updateAlumniNetwork_upsert:
  assumes "length (filter (\<lambda>a. a_user_id a = uid) (alumni_network s)) \<le> 1"
    and "foreign_keys s \<longrightarrow> uid \<in> u_id ` set (users s)"
    and "User_updateAlumniNetwork t uid d s = (r, s')"
    and "User_updateAlumniNetwork t' uid d' s' = (r', s'')"
  shows "(\<exists>a. filter (\<lambda>a. a_user_id a = uid) (alumni_network s'') = [a] \<and>
              current_employer a = ad_current_employer d' \<and> r' = Inr (Some a)) \<and>
         (length (filter (\<lambda>a. a_user_id a = v) (alumni_network s0)) \<le> 1 \<longrightarrow>
          length (filter (\<lambda>a. a_user_id a = v)
            (alumni_network
               (foldl (\<lambda>st (n, i, x). snd (User_updateAlumniNetwork n i x st)) s0 calls))) \<le> 1)"
proof (intro conjI impI)
  have s1: "s' = snd (User_updateAlumniNetwork t uid d s)" using assms(3) by simp
  have inv1: "length (filter (\<lambda>a. a_user_id a = uid) (alumni_network s')) \<le> 1"
    unfolding s1 using assms(1) by (rule updateAlumniNetwork_rows_le)
  have fk1: "foreign_keys s' \<longrightarrow> uid \<in> u_id ` set (users s')"
    unfolding s1 updateAlumniNetwork_frame using assms(2) .
  from updateAlumniNetwork_one_row [OF inv1 fk1, of t' d'] assms(4)
  show "\<exists>a. filter (\<lambda>a. a_user_id a = uid) (alumni_network s'') = [a] \<and>
              current_employer a = ad_current_employer d' \<and> r' = Inr (Some a)"
    by simp
next
  assume "length (filter (\<lambda>a. a_user_id a = v) (alumni_network s0)) \<le> 1"
  then show "length (filter (\<lambda>a. a_user_id a = v)
            (alumni_network
               (foldl (\<lambda>st (n, i, x). snd (User_updateAlumniNetwork n i x st)) s0 calls))) \<le> 1"
    by (rule updateAlumniNetwork_runs_le)
qed

theorem updateAlumniNetwork_upsert_witness:
  "length (filter (\<lambda>a. a_user_id a = 1) (alumni_network store0)) \<le> 1 \<and>
   1 \<in> u_id ` set (users store0) \<and>
   alumni_network (snd (User_updateAlumniNetwork 500 1 acme store0)) =
     [\<lparr>a_id = 1, a_user_id = 1, current_employer = Some ''Acme'', job_title = Some ''Engineer'',
       industry = None, location = None, linkedin_url = None, mentorship_available = False,
       a_updated_at = None\<rparr>] \<and>
   (\<exists>a. filter (\<lambda>a. a_user_id a = 1)
          (alumni_network (snd (User_updateAlumniNetwork 600 1 globex
             (snd (User_updateAlumniNetwork 500 1 acme store0))))) = [a] \<and>
        current_employer a = Some ''Globex'') \<and>
   length (filter (\<lambda>a. a_user_id a = 1)
     (alumni_network
        (foldl (\<lambda>st (n, i, x). snd (User_updateAlumniNetwork n i x st)) store0
           [(500, 1, acme), (600, 1, globex), (700, 1, acme)]))) \<le> 1"
proof -
  have h1: "length (filter (\<lambda>a. a_user_id a = 1) (alumni_network store0)) \<le> 1"
    by (simp add: store0_def)
  have h2: "1 \<in> u_id ` set (users store0)" by (simp add: store0_def ada_def)
  have h3: "alumni_network (snd (User_updateAlumniNetwork 500 1 acme store0)) =
     [\<lparr>a_id = 1, a_user_id = 1, current_employer = Some ''Acme'', job_title = Some ''Engineer'',
       industry = None, location = None, linkedin_url = None, mentorship_available = False,
       a_updated_at = None\<rparr>]"
    by code_simp
  from h2 have h2': "foreign_keys store0 \<longrightarrow> 1 \<in> u_id ` set (users store0)" by simp
  from updateAlumniNetwork_upsert [where t = 500 and d = acme and t' = 600 and d' = globex,
      OF h1 h2' prod.collapse [symmetric] prod.collapse [symmetric], THEN conjunct1]
  obtain a where "filter (\<lambda>a. a_user_id a = 1)
          (alumni_network (snd (User_updateAlumniNetwork 600 1 globex
             (snd (User_updateAlumniNetwork 500 1 acme store0))))) = [a]"
    and "current_employer a = ad_current_employer globex"
    by blast
  then have "\<exists>a. filter (\<lambda>a. a_user_id a = 1)
          (alumni_network (snd (User_updateAlumniNetwork 600 1 globex
             (snd (User_updateAlumniNetwork 500 1 acme store0))))) = [a] \<and>
        current_employer a = Some ''Globex''"
    by (simp add: globex_def)
  moreover
  from updateAlumniNetwork_upsert [where t = 500 and d = acme and t' = 600 and d' = globex,
      OF h1 h2' prod.collapse [symmetric] prod.collapse [symmetric], THEN conjunct2,
      of 1 store0 "[(500, 1, acme), (600, 1, globex), (700, 1, acme)]"] h1
  have "length (filter (\<lambda>a. a_user_id a = 1)
     (alumni_network
        (foldl (\<lambda>st (n, i, x). snd (User_updateAlumniNetwork n i x st)) store0
           [(500, 1, acme), (600, 1, globex), (700, 1, acme)]))) \<le> 1"
    by blast
  ultimately show ?thesis using h1 h2 h3 by simp
qed

subsection \<open>getAlumniNetwork\<close>

lemma find_by_key:
  assumes "distinct (map f xs)" and "x \<in> set xs"
  shows "find (\<lambda>y. f y = f x \<and> P y) xs = (if P x then Some x else None)"
  using assms by (induction xs) (auto simp: find_None_iff image_iff)

text \<open>
  C10, as the claim states it: the record returned for an alumna without a profile row
  carries her user fields. On the small store, with her row stamped by an earlier
  update, the record's \<^verbatim>\<open>id\<close> and \<^verbatim>\<open>updated_at\<close> are \<^verbatim>\<open>NULL\<close>, not hers: they are
  the profile's columns of those names.
\<close>

theorem getAlumniNetwork_user_fields_counterexample:
  "map_option an_id
     (User_getAlumniNetwork 1 (store0\<lparr>users := [ada\<lparr>u_updated_at := Some 500\<rparr>]\<rparr>))
     \<noteq> Some (Some (u_id (ada\<lparr>u_updated_at := Some 500\<rparr>))) \<and>
   map_option an_updated_at
     (User_getAlumniNetwork 1 (store0\<lparr>users := [ada\<lparr>u_updated_at := Some 500\<rparr>]\<rparr>))
     \<noteq> Some (u_updated_at (ada\<lparr>u_updated_at := Some 500\<rparr>))"
  by (simp add: User_getAlumniNetwork_def row_object_def store0_def ada_def)

text \<open>
  C10, amended. For a user of the store (ids are the primary key, hence distinct): when
  the user's type is \<^verbatim>\<open>alumni\<close> and no profile row carries the user's id,
  \<^verbatim>\<open>getAlumniNetwork\<close> returns a record, not an absent result; the record holds the
  user's \<^verbatim>\<open>microsoft_id\<close>, \<^verbatim>\<open>email\<close>, \<^verbatim>\<open>name\<close>, \<^verbatim>\<open>avatar_url\<close>, \<^verbatim>\<open>user_type\<close>,
  \<^verbatim>\<open>graduation_year\<close>, \<^verbatim>\<open>major\<close>, \<^verbatim>\<open>enrollment_year\<close>, \<^verbatim>\<open>last_login\<close> and
  \<^verbatim>\<open>created_at\<close>, and every profile column in it is \<^verbatim>\<open>NULL\<close>, \<^verbatim>\<open>id\<close> and
  \<^verbatim>\<open>updated_at\<close> among them, which stand in the place of the user's. When the type is
  anything else the method returns nothing, whatever the profile table holds.
\<close>

theorem getAlumniNetwork_alumni_only:
  assumes "u \<in> set (users s)" and "distinct (map u_id (users s))"
  shows "(user_type u = ''alumni'' \<and> (\<forall>a \<in> set (alumni_network s). a_user_id a \<noteq> u_id u)
            \<longrightarrow> (\<exists>r. User_getAlumniNetwork (u_id u) s = Some r \<and>
                    an_microsoft_id r = microsoft_id u \<and> an_email r = email u \<and>
                    an_name r = u_name u \<and> an_avatar_url r = avatar_url u \<and>
                    an_user_type r = ''alumni'' \<and>
                    an_graduation_year r = graduation_year u \<and> an_major r = major u \<and>
                    an_enrollment_year r = enrollment_year u \<and>
                    an_last_login r = last_login u \<and> an_created_at r = u_created_at u \<and>
                    an_id r = None \<and> an_updated_at r = None \<and> an_user_id r = None \<and>
                    an_current_employer r = None \<and> an_job_title r = None \<and>
                    an_industry r = None \<and> an_location r = None \<and>
                    an_linkedin_url r = None \<and> an_mentorship_available r = None)) \<and>
         (user_type u \<noteq> ''alumni'' \<longrightarrow> User_getAlumniNetwork (u_id u) s = None)"
proof -
  have f: "find (\<lambda>y. u_id y = u_id u \<and> user_type y = ''alumni'') (users s)
      = (if user_type u = ''alumni'' then Some u else None)"
    using assms(2,1) by (rule find_by_key)
  show ?thesis
  proof (intro conjI impI)
    assume a: "user_type u = ''alumni'' \<and> (\<forall>a \<in> set (alumni_network s). a_user_id a \<noteq> u_id u)"
    then have "find (\<lambda>a. a_user_id a = u_id u) (alumni_network s) = None"
      by (simp add: find_None_iff)
    with a f have "User_getAlumniNetwork (u_id u) s = Some (row_object u None)"
      by (simp add: User_getAlumniNetwork_def)
    with a show "\<exists>r. User_getAlumniNetwork (u_id u) s = Some r \<and>
                    an_microsoft_id r = microsoft_id u \<and> an_email r = email u \<and>
                    an_name r = u_name u \<and> an_avatar_url r = avatar_url u \<and>
                    an_user_type r = ''alumni'' \<and>
                    an_graduation_year r = graduation_year u \<and> an_major r = major u \<and>
                    an_enrollment_year r = enrollment_year u \<and>
                    an_last_login r = last_login u \<and> an_created_at r = u_created_at u \<and>
                    an_id r = None \<and> an_updated_at r = None \<and> an_user_id r = None \<and>
                    an_current_employer r = None \<and> an_job_title r = None \<and>
                    an_industry r = None \<and> an_location r = None \<and>
                    an_linkedin_url r = None \<and> an_mentorship_available r = None"
      by (simp add: row_object_def)
  next
    assume "user_type u \<noteq> ''alumni''"
    with f show "User_getAlumniNetwork (u_id u) s = None"
      by (simp add: User_getAlumniNetwork_def)
  qed
qed

theorem getAlumniNetwork_alumni_only_witness:
  "ada \<in> set (users store0) \<and> distinct (map u_id (users store0)) \<and>
   user_type ada = ''alumni'' \<and> alumni_network store0 = [] \<and>
   User_getAlumniNetwork 1 store0 \<noteq> None \<and>
   map_option an_email (User_getAlumniNetwork 1 store0) = Some ''ada@example.edu'' \<and>
   map_option an_id (User_getAlumniNetwork 1 store0) = Some None \<and>
   user_type bob_row = ''current'' \<and>
   a_user_id bob_profile = u_id bob_row \<and>
   User_getAlumniNetwork 2
     (store0\<lparr>users := [ada, bob_row], alumni_network := [bob_profile]\<rparr>) = None"
proof -
  have a: "ada \<in> set (users store0)" "distinct (map u_id (users store0))"
    "user_type ada = ''alumni''" "alumni_network store0 = []" "u_id ada = 1"
    "email ada = ''ada@example.edu''"
    by (simp_all add: store0_def ada_def)
  let ?st = "store0\<lparr>users := [ada, bob_row], alumni_network := [bob_profile]\<rparr>"
  have b: "bob_row \<in> set (users ?st)" "distinct (map u_id (users ?st))"
    "user_type bob_row = ''current''" "u_id bob_row = 2" "a_user_id bob_profile = u_id bob_row"
    by (simp_all add: ada_def bob_row_def bob_profile_def)
  from getAlumniNetwork_alumni_only [OF a(1,2)] a
  obtain r where r: "User_getAlumniNetwork 1 store0 = Some r" "an_email r = ''ada@example.edu''"
    "an_id r = None"
    by auto
  from getAlumniNetwork_alumni_only [OF b(1,2)] b(3,4)
  have 2: "User_getAlumniNetwork 2 ?st = None" by simp
  from a b r 2 show ?thesis by simp
qed

section \<open>The professor route\<close>

lemma count_distinct_key:
  assumes "distinct (map f xs)"
  shows "length (filter (\<lambda>x. f x = k) xs) = (if k \<in> f ` set xs then 1 else 0)"
  using assms by (induction xs) (auto simp: image_iff)

lemma insert_or_ignore_existing:
  assumes "list_ex (\<lambda>p. p_name p = name \<and> p_department p = dept) (professors s)"
  shows "insert_or_ignore_professor name dept s = s"
  using assms by (simp add: insert_or_ignore_professor_def)

lemma insert_or_ignore_new:
  assumes "\<not> list_ex (\<lambda>p. p_name p = name \<and> p_department p = dept) (professors s)"
  shows "professors (insert_or_ignore_professor name dept s) =
           professors s @ [\<lparr>p_id = next_rowid (map p_id (professors s)), p_name = name,
                             p_department = dept\<rparr>]"
  using assms by (simp add: insert_or_ignore_professor_def Let_def)

lemma insert_or_ignore_holds:
  "list_ex (\<lambda>p. p_name p = name \<and> p_department p = dept)
     (professors (insert_or_ignore_professor name dept s))"
proof (cases "list_ex (\<lambda>p. p_name p = name \<and> p_department p = dept) (professors s)")
  case True
  then show ?thesis by (simp add: insert_or_ignore_existing)
next
  case False
  then show ?thesis by (simp add: insert_or_ignore_new)
qed

lemma insert_or_ignore_distinct:
  assumes "distinct (map (\<lambda>p. (p_name p, p_department p)) (professors s))"
  shows "distinct (map (\<lambda>p. (p_name p, p_department p))
           (professors (insert_or_ignore_professor name dept s)))"
proof (cases "list_ex (\<lambda>p. p_name p = name \<and> p_department p = dept) (professors s)")
  case True
  then show ?thesis using assms by (simp add: insert_or_ignore_existing)
next
  case False
  then have "(name, dept) \<notin> (\<lambda>p. (p_name p, p_department p)) ` set (professors s)"
    by (auto simp: list_ex_iff)
  then show ?thesis using assms False by (simp add: insert_or_ignore_new)
qed

lemma professors_post_accepted:
  assumes "req_user req = Some who" and "body_name req = Some name" and "name \<noteq> []"
  shows "professors_post req s =
           (\<lparr>status = 200, message = ''Professor added!'',
             resp_id = Some (lastID (insert_or_ignore_professor name (or_unknown (body_department req)) s))\<rparr>,
            insert_or_ignore_professor name (or_unknown (body_department req)) s)"
  using assms by (simp add: professors_post_def Let_def)

text \<open>
  C8. A signed-in request with a name, on a table whose (name, department) pairs are
  distinct: the request is answered with status 200, a second identical request changes
  nothing, and afterwards exactly one row carries the pair. When the pair is already in
  the table the first request is itself a no-op answered with status 200. An omitted
  department is stored as \<^verbatim>\<open>Unknown\<close>.
\<close>

theorem professors_post_idempotent:
  assumes "req_user req = Some who" and "body_name req = Some name" and "name \<noteq> []"
    and "distinct (map (\<lambda>p. (p_name p, p_department p)) (professors s))"
  shows "status (fst (professors_post req s)) = 200 \<and>
         status (fst (professors_post req (snd (professors_post req s)))) = 200 \<and>
         snd (professors_post req (snd (professors_post req s))) = snd (professors_post req s) \<and>
         length (filter (\<lambda>p. p_name p = name \<and> p_department p = or_unknown (body_department req))
                   (professors (snd (professors_post req (snd (professors_post req s)))))) = 1 \<and>
         (list_ex (\<lambda>p. p_name p = name \<and> p_department p = or_unknown (body_department req))
             (professors s) \<longrightarrow>
            professors_post req s =
              (\<lparr>status = 200, message = ''Professor added!'', resp_id = Some (lastID s)\<rparr>, s)) \<and>
         (body_department req = None \<longrightarrow> or_unknown (body_department req) = ''Unknown'')"
proof -
  let ?d = "or_unknown (body_department req)"
  let ?s1 = "insert_or_ignore_professor name ?d s"
  note post = professors_post_accepted [OF assms(1-3)]
  have holds: "list_ex (\<lambda>p. p_name p = name \<and> p_department p = ?d) (professors ?s1)"
    by (rule insert_or_ignore_holds)
  then have again: "insert_or_ignore_professor name ?d ?s1 = ?s1"
    by (rule insert_or_ignore_existing)
  have d1: "distinct (map (\<lambda>p. (p_name p, p_department p)) (professors ?s1))"
    using assms(4) by (rule insert_or_ignore_distinct)
  have "(name, ?d) \<in> (\<lambda>p. (p_name p, p_department p)) ` set (professors ?s1)"
    using holds by (auto simp: list_ex_iff image_iff)
  with count_distinct_key [OF d1, of "(name, ?d)"]
  have one: "length (filter (\<lambda>p. p_name p = name \<and> p_department p = ?d) (professors ?s1)) = 1"
    by simp
  show ?thesis
  proof (intro conjI impI)
    show "status (fst (professors_post req s)) = 200" by (simp add: post)
    show "status (fst (professors_post req (snd (professors_post req s)))) = 200"
      by (simp add: post)
    show "snd (professors_post req (snd (professors_post req s))) = snd (professors_post req s)"
      by (simp add: post again)
    show "length (filter (\<lambda>p. p_name p = name \<and> p_department p = ?d)
            (professors (snd (professors_post req (snd (professors_post req s)))))) = 1"
      by (simp add: post again one)
  next
    assume "list_ex (\<lambda>p. p_name p = name \<and> p_department p = ?d) (professors s)"
    then have "?s1 = s" by (rule insert_or_ignore_existing)
    then show "professors_post req s =
        (\<lparr>status = 200, message = ''Professor added!'', resp_id = Some (lastID s)\<rparr>, s)"
      by (simp add: post)
  next
    assume "body_department req = None"
    then show "?d = ''Unknown''" by (simp add: or_unknown_def)
  qed
qed

theorem professors_post_idempotent_witness:
  "req_user jane_request = Some ''Ada'' \<and> body_name jane_request = Some ''Dr. Jane Lee'' \<and>
   distinct (map (\<lambda>p. (p_name p, p_department p)) (professors store0)) \<and>
   professors_post jane_request store0 =
     (\<lparr>status = 200, message = ''Professor added!'', resp_id = Some 1\<rparr>, store0) \<and>
   professors (snd (professors_post kim_request store0)) =
     [jane, \<lparr>p_id = 2, p_name = ''Dr. Kim'', p_department = ''Unknown''\<rparr>] \<and>
   snd (professors_post kim_request (snd (professors_post kim_request store0))) =
     snd (professors_post kim_request store0)"
proof -
  have j: "req_user jane_request = Some ''Ada''" "body_name jane_request = Some ''Dr. Jane Lee''"
    "''Dr. Jane Lee'' \<noteq> []" "or_unknown (body_department jane_request) = ''COMP''"
    by (simp_all add: jane_request_def or_unknown_def)
  have k: "req_user kim_request = Some ''Ada''" "body_name kim_request = Some ''Dr. Kim''"
    "''Dr. Kim'' \<noteq> []"
    by (simp_all add: kim_request_def)
  have d: "distinct (map (\<lambda>p. (p_name p, p_department p)) (professors store0))"
    by (simp add: store0_def)
  have e: "list_ex (\<lambda>p. p_name p = ''Dr. Jane Lee'' \<and> p_department p = ''COMP'') (professors store0)"
    "lastID store0 = 1"
    by (simp_all add: store0_def jane_def)
  from professors_post_idempotent [OF j(1,2,3) d] e j(4)
  have 1: "professors_post jane_request store0 =
     (\<lparr>status = 200, message = ''Professor added!'', resp_id = Some 1\<rparr>, store0)"
    by simp
  from professors_post_idempotent [OF k d]
  have 2: "snd (professors_post kim_request (snd (professors_post kim_request store0))) =
     snd (professors_post kim_request store0)"
    by blast
  have 3: "professors (snd (professors_post kim_request store0)) =
     [jane, \<lparr>p_id = 2, p_name = ''Dr. Kim'', p_department = ''Unknown''\<rparr>]"
    by (simp add: professors_post_def kim_request_def insert_or_ignore_professor_def
        or_unknown_def store0_def jane_def next_rowid_def Let_def)
  from j d 1 2 3 show ?thesis by simp
qed

end
